theory Spec2Isabelle
  imports Complex_Main
begin

section \<open>Human-interaction emulation (human.ts): data model\<close>

text \<open>
  JavaScript numbers are modelled as real numbers. \<open>Math.sqrt\<close>, \<open>Math.cos\<close>,
  \<open>Math.sin\<close> and \<open>Math.PI\<close> are \<^const>\<open>sqrt\<close>, \<^const>\<open>cos\<close>, \<^const>\<open>sin\<close> and \<^const>\<open>pi\<close>.
  Infinities and NaN are outside the model. Arithmetic is exact, except in scrolling,
  where the question is whether computed numbers are equal: there every operation of the
  source is followed by the rounding \<open>fl\<close> of its result to a double.
\<close>

record point =
  x :: real
  y :: real

text \<open>The value of \<open>element.boundingBox()\<close>: \<open>{x, y, width, height}\<close>.\<close>

record box =
  box_x :: real
  box_y :: real
  width :: real
  height :: real

text \<open>A \<open>{min, max}\<close> range of the configuration.\<close>

record range =
  range_min :: real
  range_max :: real

record config =
  enabled :: bool
  mouseSpeed :: "range option"
  typingDelay :: "range option"
  scrollDelay :: "range option"

definition DEFAULTS_mouseSpeed :: range where
  "DEFAULTS_mouseSpeed = \<lparr>range_min = 100, range_max = 300\<rparr>"

definition DEFAULTS_typingDelay :: range where
  "DEFAULTS_typingDelay = \<lparr>range_min = 50, range_max = 150\<rparr>"


definition DEFAULTS_moveSteps :: nat where
  "DEFAULTS_moveSteps = 25"

text \<open>\<open>config.field || DEFAULTS.field\<close>: a range object is truthy, \<open>undefined\<close> is not.\<close>

definition orDefault :: "range option \<Rightarrow> range \<Rightarrow> range" where
  "orDefault r d = (case r of None \<Rightarrow> d | Some v \<Rightarrow> v)"

subsection \<open>Randomness\<close>

text \<open>
  \<open>Math.random()\<close> is unseeded. The model makes the source of randomness explicit: the
  infinite sequence of the values that the coming calls of \<open>Math.random()\<close> will return.
  A call takes the head of the sequence and leaves the rest. Each value lies in \<open>[0, 1)\<close>.
\<close>

type_synonym rng = "nat \<Rightarrow> real"

definition validDraws :: "rng \<Rightarrow> bool" where
  "validDraws rng = (\<forall>n. 0 \<le> rng n \<and> rng n < 1)"

definition skipDraws :: "nat \<Rightarrow> rng \<Rightarrow> rng" where
  "skipDraws k rng = (\<lambda>n. rng (n + k))"

definition constDraws :: "real \<Rightarrow> rng" where
  "constDraws c = (\<lambda>n. c)"

definition randomBetween :: "real \<Rightarrow> real \<Rightarrow> rng \<Rightarrow> real \<times> rng" where
  "randomBetween lo hi rng = (rng 0 * (hi - lo) + lo, skipDraws 1 rng)"

text \<open>\<open>Math.round\<close> rounds to the nearest integer, halves towards \<open>+\<infinity>\<close>.\<close>

definition Math_round :: "real \<Rightarrow> real" where
  "Math_round v = real_of_int \<lfloor>v + 1 / 2\<rfloor>"

subsection \<open>Rounding to a double\<close>

text \<open>The nearest integer, a tie going to the even one.\<close>

definition roundEven :: "real \<Rightarrow> int" where
  "roundEven q =
     (let f = \<lfloor>q\<rfloor>
      in if q - real_of_int f < 1 / 2 then f
         else if 1 / 2 < q - real_of_int f then f + 1
         else if even f then f else f + 1)"

text \<open>
  IEEE 754 binary64, round to nearest, ties to even: a number \<open>v\<close> with
  \<open>2^k \<le> |v| < 2^(k+1)\<close> is rounded to the nearest multiple of \<open>2^(k-52)\<close>, which
  gives it a significand of 53 bits. Subnormal numbers and overflow are outside the model.
\<close>

definition roundDouble :: "real \<Rightarrow> real" where
  "roundDouble v =
     (if v = 0 then 0
      else (let e = \<lfloor>log 2 \<bar>v\<bar>\<rfloor> - 52
            in real_of_int (roundEven (v / 2 powr real_of_int e)) * 2 powr real_of_int e))"


section \<open>Geometry engine and path planner\<close>

definition bezierPoint :: "real \<Rightarrow> point \<Rightarrow> point \<Rightarrow> point \<Rightarrow> point \<Rightarrow> point" where
  "bezierPoint t p0 p1 p2 p3 =
     (let t2 = t * t;
          t3 = t2 * t;
          mt = 1 - t;
          mt2 = mt * mt;
          mt3 = mt2 * mt
      in \<lparr>x = mt3 * x p0 + 3 * mt2 * t * x p1 + 3 * mt * t2 * x p2 + t3 * x p3,
          y = mt3 * y p0 + 3 * mt2 * t * y p1 + 3 * mt * t2 * y p2 + t3 * y p3\<rparr>)"

text \<open>
  Lines 63-83 of \<open>generateMousePath\<close>: the two control points. The four draws are made in
  the order of the source: \<open>offset1\<close>, \<open>offset2\<close>, \<open>angle1\<close>, \<open>angle2\<close>.
\<close>

definition controlPoints :: "point \<Rightarrow> point \<Rightarrow> rng \<Rightarrow> point \<times> point \<times> rng" where
  "controlPoints start endp rng =
     (let dx = x endp - x start;
          dy = y endp - y start;
          distance = sqrt (dx * dx + dy * dy);
          (r1, rng1) = randomBetween 0.2 0.4 rng;
          offset1 = r1 * distance;
          (r2, rng2) = randomBetween 0.2 0.4 rng1;
          offset2 = r2 * distance;
          (angle1, rng3) = randomBetween (- pi / 4) (pi / 4) rng2;
          (angle2, rng4) = randomBetween (- pi / 4) (pi / 4) rng3;
          cp1 = \<lparr>x = x start + dx * 0.25 + cos angle1 * offset1,
                 y = y start + dy * 0.25 + sin angle1 * offset1\<rparr>;
          cp2 = \<lparr>x = x start + dx * 0.75 + cos angle2 * offset2,
                 y = y start + dy * 0.75 + sin angle2 * offset2\<rparr>
      in (cp1, cp2, rng4))"

text \<open>
  Lines 86-94: the sampling loop, from index \<open>i\<close> on. Each sample draws the jitter of
  its \<open>x\<close> first and of its \<open>y\<close> second. The step count is a natural number; for
  \<open>steps = 0\<close> JavaScript computes \<open>t = 0 / 0 = NaN\<close>, which the model does not
  represent, so the model is the source for \<open>steps \<ge> 1\<close>.
\<close>

function pathLoop ::
  "point \<Rightarrow> point \<Rightarrow> point \<Rightarrow> point \<Rightarrow> nat \<Rightarrow> nat \<Rightarrow> rng \<Rightarrow> point list \<times> rng" where
  "pathLoop start cp1 cp2 endp steps i rng =
     (if i \<le> steps then
        (let t = real i / real steps;
             point = bezierPoint t start cp1 cp2 endp;
             (jx, rng1) = randomBetween (- 1) 1 rng;
             (jy, rng2) = randomBetween (- 1) 1 rng1;
             p = \<lparr>x = Math_round (x point + jx), y = Math_round (y point + jy)\<rparr>;
             (rest, rng3) = pathLoop start cp1 cp2 endp steps (i + 1) rng2
         in (p # rest, rng3))
      else ([], rng))"
  by pat_completeness auto
termination
  by (relation "measure (\<lambda>(start, cp1, cp2, endp, steps, i, rng). Suc steps - i)") auto

declare pathLoop.simps [simp del]

definition generateMousePath :: "point \<Rightarrow> point \<Rightarrow> nat \<Rightarrow> rng \<Rightarrow> point list \<times> rng" where
  "generateMousePath start endp steps rng =
     (let (cp1, cp2, rng4) = controlPoints start endp rng
      in pathLoop start cp1 cp2 endp steps 0 rng4)"

text \<open>
  Lines 108-115 of \<open>getRandomPointInElement\<close>: the target point inside a bounding box.
\<close>

definition randomPointInBox :: "box \<Rightarrow> rng \<Rightarrow> point \<times> rng" where
  "randomPointInBox b rng =
     (let marginX = width b * 0.1;
          marginY = height b * 0.1;
          (rx, rng1) = randomBetween 0 (width b - 2 * marginX) rng;
          (ry, rng2) = randomBetween 0 (height b - 2 * marginY) rng1
      in (\<lparr>x = box_x b + marginX + rx, y = box_y b + marginY + ry\<rparr>, rng2))"

section \<open>The actor, the session state and the effects\<close>

datatype button = Left | Right | Middle

datatype direction = Up | Down

record click_options =
  button :: "button option"
  clickCount :: "nat option"

record type_options =
  delay :: "real option"

text \<open>
  \<open>Error msg\<close> is \<open>new Error(msg)\<close> thrown by this module. A failure of a call to the
  actor (a rejected promise of Playwright) is \<open>ActorFailure\<close> with the actor's message.
\<close>

datatype error = Error string | ActorFailure string

type_synonym element = nat

text \<open>What the module does to the outside, in the order it happens.\<close>

datatype event =
    Query string
  | BoundingBox element
  | MouseMove real real
  | MouseClick real real button nat
  | MouseWheel real real
  | KeyboardType char
  | KeyboardPress string
  | Sleep real

text \<open>
  The actor (Playwright's \<open>Page\<close>, with its \<open>mouse\<close>, its \<open>keyboard\<close> and the
  \<open>boundingBox\<close> of its element handles) is a deterministic machine over a state \<open>'w\<close>
  of the browser: each primitive takes that state and returns its result, or the message
  of its failure, and the next state.
\<close>

record 'w page =
  query :: "string \<Rightarrow> 'w \<Rightarrow> (string + element option) \<times> 'w"
  boundingBox :: "element \<Rightarrow> 'w \<Rightarrow> (string + box option) \<times> 'w"
  mouse_move :: "real \<Rightarrow> real \<Rightarrow> 'w \<Rightarrow> (string + unit) \<times> 'w"
  mouse_click :: "real \<Rightarrow> real \<Rightarrow> button \<Rightarrow> nat \<Rightarrow> 'w \<Rightarrow> (string + unit) \<times> 'w"
  mouse_wheel :: "real \<Rightarrow> real \<Rightarrow> 'w \<Rightarrow> (string + unit) \<times> 'w"
  keyboard_type :: "char \<Rightarrow> 'w \<Rightarrow> (string + unit) \<times> 'w"
  keyboard_press :: "string \<Rightarrow> 'w \<Rightarrow> (string + unit) \<times> 'w"

text \<open>
  The state threaded through every operation: the module variable \<open>lastMousePosition\<close>,
  the coming values of \<open>Math.random()\<close>, the events so far and the state of the browser.
\<close>

record 'w state =
  lastMousePosition :: point
  random :: rng
  trace :: "event list"
  world :: 'w

definition initialState :: "rng \<Rightarrow> 'w \<Rightarrow> 'w state" where
  "initialState rng w =
     \<lparr>lastMousePosition = \<lparr>x = 100, y = 100\<rparr>, random = rng, trace = [], world = w\<rparr>"

type_synonym ('w, 'a) action = "'w state \<Rightarrow> (error + 'a) \<times> 'w state"

definition done_with :: "'a \<Rightarrow> ('w, 'a) action" where
  "done_with v s = (Inr v, s)"

definition throw :: "error \<Rightarrow> ('w, 'a) action" where
  "throw e s = (Inl e, s)"

text \<open>\<open>await m\<close> followed by the rest \<open>f\<close>: an exception of \<open>m\<close> skips the rest.\<close>

definition then_do :: "('w, 'a) action \<Rightarrow> ('a \<Rightarrow> ('w, 'b) action) \<Rightarrow> ('w, 'b) action" where
  "then_do m f s = (case m s of (Inl e, s1) \<Rightarrow> (Inl e, s1) | (Inr v, s1) \<Rightarrow> f v s1)"

definition actorCall :: "event \<Rightarrow> ('w \<Rightarrow> (string + 'a) \<times> 'w) \<Rightarrow> ('w, 'a) action" where
  "actorCall ev prim s =
     (let (r, w1) = prim (world s);
          s1 = s\<lparr>trace := trace s @ [ev], world := w1\<rparr>
      in case r of Inl msg \<Rightarrow> (Inl (ActorFailure msg), s1) | Inr v \<Rightarrow> (Inr v, s1))"

definition draw :: "(rng \<Rightarrow> 'a \<times> rng) \<Rightarrow> ('w, 'a) action" where
  "draw f s = (let (v, rng1) = f (random s) in (Inr v, s\<lparr>random := rng1\<rparr>))"

text \<open>\<open>await new Promise((resolve) => setTimeout(resolve, ms))\<close>.\<close>

definition sleep :: "real \<Rightarrow> ('w, unit) action" where
  "sleep ms s = (Inr (), s\<lparr>trace := trace s @ [Sleep ms]\<rparr>)"

definition randomSleep :: "real \<Rightarrow> real \<Rightarrow> ('w, unit) action" where
  "randomSleep lo hi = then_do (draw (randomBetween lo hi)) sleep"

section \<open>Motion driver\<close>

definition getRandomPointInElement :: "'w page \<Rightarrow> element \<Rightarrow> ('w, point) action" where
  "getRandomPointInElement page element =
     then_do (actorCall (BoundingBox element) (boundingBox page element))
       (\<lambda>b. case b of
          None \<Rightarrow> throw (Error ''Element has no bounding box'')
        | Some bx \<Rightarrow> draw (randomPointInBox bx))"

text \<open>
  Lines 133-138: the pause before the move to \<open>point\<close>, from the distance to \<open>prev\<close>.
  Where the sampled speed is \<open>0\<close> JavaScript divides to \<open>Infinity\<close> or \<open>NaN\<close> and the
  model to \<open>0\<close>; the model is the source for a speed other than \<open>0\<close>.
\<close>

definition stepDelay :: "range \<Rightarrow> point \<Rightarrow> point \<Rightarrow> ('w, unit) action" where
  "stepDelay speed prev point =
     (let dist = sqrt ((x point - x prev) ^ 2 + (y point - y prev) ^ 2)
      in then_do (draw (randomBetween (range_min speed) (range_max speed)))
           (\<lambda>v. sleep (max 1 (dist / v * 100))))"

function moveLoop :: "'w page \<Rightarrow> range \<Rightarrow> point list \<Rightarrow> nat \<Rightarrow> ('w, unit) action" where
  "moveLoop page speed path i s =
     (if i < length path then
        (let point = path ! i
         in case (if i > 0 then stepDelay speed (path ! (i - 1)) point s else (Inr (), s)) of
              (Inl e, s1) \<Rightarrow> (Inl e, s1)
            | (Inr u, s1) \<Rightarrow>
                (case actorCall (MouseMove (x point) (y point))
                        (mouse_move page (x point) (y point)) s1 of
                   (Inl e, s2) \<Rightarrow> (Inl e, s2)
                 | (Inr u, s2) \<Rightarrow> moveLoop page speed path (i + 1) s2))
      else (Inr (), s))"
  by pat_completeness auto
termination
  by (relation "measure (\<lambda>(page, speed, path, i, s). length path - i)") auto

declare moveLoop.simps [simp del]

definition moveMouseAlongPath :: "'w page \<Rightarrow> point list \<Rightarrow> config \<Rightarrow> ('w, unit) action" where
  "moveMouseAlongPath page path config s =
     (let speed = orDefault (mouseSpeed config) DEFAULTS_mouseSpeed
      in case moveLoop page speed path 0 s of
           (Inl e, s1) \<Rightarrow> (Inl e, s1)
         | (Inr u, s1) \<Rightarrow>
             (Inr (), if length path > 0
                      then s1\<lparr>lastMousePosition := path ! (length path - 1)\<rparr>
                      else s1))"

section \<open>Interaction primitives\<close>

text \<open>\<open>options?.button || 'left'\<close> and \<open>options?.clickCount || 1\<close> (\<open>0\<close> is falsy).\<close>

definition buttonOf :: "click_options option \<Rightarrow> button" where
  "buttonOf options =
     (case options of None \<Rightarrow> Left
      | Some opts \<Rightarrow> (case button opts of None \<Rightarrow> Left | Some b \<Rightarrow> b))"

definition clickCountOf :: "click_options option \<Rightarrow> nat" where
  "clickCountOf options =
     (case options of None \<Rightarrow> 1
      | Some opts \<Rightarrow> (case clickCount opts of None \<Rightarrow> 1 | Some n \<Rightarrow> if n = 0 then 1 else n))"

definition humanClick ::
  "'w page \<Rightarrow> string \<Rightarrow> config \<Rightarrow> click_options option \<Rightarrow> ('w, unit) action" where
  "humanClick page selector config options =
     then_do (actorCall (Query selector) (query page selector))
       (\<lambda>element. case element of
          None \<Rightarrow> throw (Error (''Element not found: '' @ selector))
        | Some el \<Rightarrow>
            then_do (getRandomPointInElement page el)
              (\<lambda>targetPoint.
            then_do (\<lambda>s. draw (generateMousePath (lastMousePosition s) targetPoint
                                  DEFAULTS_moveSteps) s)
              (\<lambda>path.
            then_do (moveMouseAlongPath page path config)
              (\<lambda>u.
            then_do (randomSleep 50 150)
              (\<lambda>u.
            then_do (actorCall (MouseClick (x targetPoint) (y targetPoint)
                                  (buttonOf options) (clickCountOf options))
                       (mouse_click page (x targetPoint) (y targetPoint)
                          (buttonOf options) (clickCountOf options)))
              (\<lambda>u. randomSleep 50 100))))))"

text \<open>The characters after which the pause is longer: \<open>. , ! ?\<close>, space and newline.\<close>

definition pauseChars :: "char list" where
  "pauseChars = [CHR ''.'', CHR '','', CHR ''!'', CHR ''?'', CHR '' '', CHR 0x0A]"

text \<open>
  The body of the typing loop, the same in \<open>humanType\<close> (lines 207-216) and in
  \<open>humanFill\<close> (lines 241-246). A \<open>char\<close> stands for one code point of the text;
  \<open>tDelay\<close> is the source's \<open>typingDelay\<close>.
\<close>

definition typeChar :: "'w page \<Rightarrow> range \<Rightarrow> char \<Rightarrow> ('w, unit) action" where
  "typeChar page tDelay c =
     then_do (actorCall (KeyboardType c) (keyboard_type page c))
       (\<lambda>u.
     then_do (draw (randomBetween (range_min tDelay) (range_max tDelay)))
       (\<lambda>delay.
     then_do (if c \<in> set pauseChars
              then then_do (draw (randomBetween 1.5 2.5)) (\<lambda>m. done_with (delay * m))
              else done_with delay)
       sleep))"

fun typeLoop :: "'w page \<Rightarrow> range \<Rightarrow> string \<Rightarrow> ('w, unit) action" where
  "typeLoop page tDelay [] s = (Inr (), s)"
| "typeLoop page tDelay (c # cs) s =
     (case typeChar page tDelay c s of
        (Inl e, s1) \<Rightarrow> (Inl e, s1)
      | (Inr u, s1) \<Rightarrow> typeLoop page tDelay cs s1)"

definition humanType ::
  "'w page \<Rightarrow> string \<Rightarrow> string \<Rightarrow> config \<Rightarrow> type_options option \<Rightarrow> ('w, unit) action" where
  "humanType page selector text config options =
     (let tDelay = orDefault (typingDelay config) DEFAULTS_typingDelay
      in then_do (humanClick page selector config None)
           (\<lambda>u.
         then_do (randomSleep 100 200)
           (\<lambda>u. typeLoop page tDelay text)))"

definition humanFill :: "'w page \<Rightarrow> string \<Rightarrow> string \<Rightarrow> config \<Rightarrow> ('w, unit) action" where
  "humanFill page selector text config =
     then_do (humanClick page selector config None)
       (\<lambda>u.
     then_do (actorCall (KeyboardPress ''Control+a'') (keyboard_press page ''Control+a''))
       (\<lambda>u.
     then_do (randomSleep 50 100)
       (\<lambda>u.
     then_do (actorCall (KeyboardPress ''Backspace'') (keyboard_press page ''Backspace''))
       (\<lambda>u.
     then_do (randomSleep 100 200)
       (\<lambda>u. typeLoop page (orDefault (typingDelay config) DEFAULTS_typingDelay) text)))))"




section \<open>Interception layer\<close>

text \<open>
  Objects are referred to by reference. The store holds, for every reference, whether the
  object is a page of the actor or a \<open>Proxy\<close> made by \<open>createHumanizedPage\<close>, which keeps
  its target and the configuration that its handler closes over. \<open>new Proxy\<close> allocates
  the next reference.
\<close>

datatype obj = PageObj | ProxyObj nat config

definition createHumanizedPage :: "nat \<Rightarrow> config \<Rightarrow> obj list \<Rightarrow> nat \<times> obj list" where
  "createHumanizedPage page config store =
     (if \<not> enabled config then (page, store)
      else (length store, store @ [ProxyObj page config]))"

text \<open>
  The closure that the handler returns for the property \<open>type\<close> (lines 294-298), applied
  to the arguments of a call.
\<close>

definition proxyType ::
  "'w page \<Rightarrow> config \<Rightarrow> string \<Rightarrow> string \<Rightarrow> type_options option \<Rightarrow> ('w, unit) action" where
  "proxyType target config selector text options =
     humanType target selector text config options"

section \<open>Notions used to state the properties\<close>

text \<open>
  The point that one round of the sampling loop pushes (lines 90-93) for the curve point
  \<open>p\<close>: the next two draws are the jitter of \<open>x\<close> and of \<open>y\<close>.
\<close>

definition jitterPoint :: "point \<Rightarrow> rng \<Rightarrow> point" where
  "jitterPoint p rng =
     \<lparr>x = Math_round (x p + (rng 0 * (1 - (- 1)) + (- 1))),
      y = Math_round (y p + (rng 1 * (1 - (- 1)) + (- 1)))\<rparr>"

text \<open>
  The displacement of a control point \<open>cp\<close> from the position at the fraction \<open>q\<close> of
  the segment from \<open>start\<close> to \<open>endp\<close>.
\<close>

definition displacement :: "point \<Rightarrow> point \<Rightarrow> real \<Rightarrow> point \<Rightarrow> point" where
  "displacement start endp q cp =
     \<lparr>x = x cp - (x start + (x endp - x start) * q),
      y = y cp - (y start + (y endp - y start) * q)\<rparr>"

text \<open>
  A vector \<open>v\<close> is within 45 degrees of the perpendicular to the line from \<open>start\<close> to
  \<open>endp\<close> (on either side of it) when its component along the perpendicular
  \<open>(- dy, dx)\<close> is at least as long as its component along the line \<open>(dx, dy)\<close>.
\<close>

definition nearPerpendicular :: "point \<Rightarrow> point \<Rightarrow> point \<Rightarrow> bool" where
  "nearPerpendicular start endp v =
     (let dx = x endp - x start; dy = y endp - y start
      in \<bar>x v * dx + y v * dy\<bar> \<le> \<bar>x v * (- dy) + y v * dx\<bar>)"

text \<open>
  An actor without a state of its own, every primitive of which succeeds: \<open>resolve\<close>
  gives the element of a selector and \<open>boxOf\<close> the bounding box of an element.
\<close>

definition staticPage :: "(string \<Rightarrow> element option) \<Rightarrow> (element \<Rightarrow> box option) \<Rightarrow> unit page" where
  "staticPage resolve boxOf =
     \<lparr>query = (\<lambda>selector w. (Inr (resolve selector), w)),
      boundingBox = (\<lambda>el w. (Inr (boxOf el), w)),
      mouse_move = (\<lambda>px py w. (Inr (), w)),
      mouse_click = (\<lambda>px py b n w. (Inr (), w)),
      mouse_wheel = (\<lambda>dx dy w. (Inr (), w)),
      keyboard_type = (\<lambda>c w. (Inr (), w)),
      keyboard_press = (\<lambda>k w. (Inr (), w))\<rparr>"

definition boxPage :: "box \<Rightarrow> unit page" where
  "boxPage b = staticPage (\<lambda>selector. Some 0) (\<lambda>el. Some b)"

definition emptyPage :: "unit page" where
  "emptyPage = staticPage (\<lambda>selector. None) (\<lambda>el. None)"

definition hiddenPage :: "unit page" where
  "hiddenPage = staticPage (\<lambda>selector. Some 0) (\<lambda>el. None)"





text \<open>The configuration that the node passes: emulation enabled, every range left out.\<close>

definition defaultConfig :: config where
  "defaultConfig = \<lparr>enabled = True, mouseSpeed = None, typingDelay = None, scrollDelay = None\<rparr>"

text \<open>The state of round \<open>i\<close> of the motion loop after its pause, before its move.\<close>

definition beforeMove :: "range \<Rightarrow> point list \<Rightarrow> nat \<Rightarrow> 'w state \<Rightarrow> 'w state" where
  "beforeMove speed path i s =
     (if i > 0 then snd (stepDelay speed (path ! (i - 1)) (path ! i) s) else s)"

text \<open>
  The selector does not resolve to a target in the browser state \<open>w\<close>: \<open>page.$\<close> returns
  \<open>null\<close>, or it returns an element whose \<open>boundingBox()\<close> returns \<open>null\<close>.
\<close>

definition targetUnresolved :: "'w page \<Rightarrow> string \<Rightarrow> 'w \<Rightarrow> bool" where
  "targetUnresolved page selector w =
     (case query page selector w of
        (Inl msg, w1) \<Rightarrow> False
      | (Inr None, w1) \<Rightarrow> True
      | (Inr (Some el), w1) \<Rightarrow>
          (case boundingBox page el w1 of
             (Inl msg, w2) \<Rightarrow> False
           | (Inr None, w2) \<Rightarrow> True
           | (Inr (Some b), w2) \<Rightarrow> False))"

text \<open>An action that raises nothing of its own: each of its failures is one of the actor.\<close>

definition failsOnlyByActor :: "('w, 'a) action \<Rightarrow> bool" where
  "failsOnlyByActor m = (\<forall>s e. fst (m s) = Inl e \<longrightarrow> (\<exists>msg. e = ActorFailure msg))"

text \<open>
  The events of typing the characters \<open>cs\<close> with the delays \<open>ds\<close>: each keystroke is
  followed by its pause.
\<close>

fun keystrokes :: "string \<Rightarrow> real list \<Rightarrow> event list" where
  "keystrokes (c # cs) (d # ds) = KeyboardType c # Sleep d # keystrokes cs ds"
| "keystrokes cs ds = []"


text \<open>An action that leaves the coming draws in \<open>[0, 1)\<close> if they were.\<close>

definition keepsValidDraws :: "('w, 'a) action \<Rightarrow> bool" where
  "keepsValidDraws m = (\<forall>s. validDraws (random s) \<longrightarrow> validDraws (random (snd (m s))))"

text \<open>An action that raises nothing, from any state.\<close>

definition alwaysCompletes :: "('w, 'a) action \<Rightarrow> bool" where
  "alwaysCompletes m = (\<forall>s. \<exists>v. fst (m s) = Inr v)"


text \<open>The events of the keyboard: \<open>page.keyboard.type\<close> and \<open>page.keyboard.press\<close>.\<close>

fun isKeyboard :: "event \<Rightarrow> bool" where
  "isKeyboard (KeyboardType c) = True"
| "isKeyboard (KeyboardPress k) = True"
| "isKeyboard ev = False"

definition keyboardEvents :: "event list \<Rightarrow> event list" where
  "keyboardEvents es = filter isKeyboard es"

text \<open>
  An action that only adds events to the trace, none of them an event of the keyboard.
\<close>

definition pressesNoKey :: "('w, 'a) action \<Rightarrow> bool" where
  "pressesNoKey m = (\<forall>s. \<exists>es. trace (snd (m s)) = trace s @ es \<and> keyboardEvents es = [])"

section \<open>Properties of the geometry engine\<close>

lemma bezierPoint_at_0: "bezierPoint 0 p0 p1 p2 p3 = p0"
  by (simp add: bezierPoint_def)

lemma bezierPoint_at_1: "bezierPoint 1 p0 p1 p2 p3 = p3"
  by (simp add: bezierPoint_def)

subsection \<open>Draws\<close>

lemma skipDraws_valid: "validDraws rng \<Longrightarrow> validDraws (skipDraws k rng)"
  by (simp add: validDraws_def skipDraws_def)

lemma skipDraws_0: "skipDraws 0 rng = rng"
  by (simp add: skipDraws_def)

lemma skipDraws_skipDraws: "skipDraws a (skipDraws b rng) = skipDraws (b + a) rng"
  by (simp add: skipDraws_def ac_simps)

lemma validDraws_constDraws: "validDraws (constDraws c) = (0 \<le> c \<and> c < 1)"
  by (simp add: validDraws_def constDraws_def)

lemma constDraws_apply: "constDraws c n = c"
  by (simp add: constDraws_def)

lemma skipDraws_constDraws: "skipDraws k (constDraws c) = constDraws c"
  by (simp add: skipDraws_def constDraws_def)

section \<open>Properties of the path planner\<close>

lemma pathLoop_step:
  assumes "i \<le> steps"
  shows "pathLoop start cp1 cp2 endp steps i rng =
     (jitterPoint (bezierPoint (real i / real steps) start cp1 cp2 endp) rng
        # fst (pathLoop start cp1 cp2 endp steps (Suc i) (skipDraws 2 rng)),
      snd (pathLoop start cp1 cp2 endp steps (Suc i) (skipDraws 2 rng)))"
  using assms
  by (subst pathLoop.simps)
     (simp add: Let_def randomBetween_def jitterPoint_def skipDraws_def split: prod.splits)

lemma pathLoop_stop:
  "steps < i \<Longrightarrow> pathLoop start cp1 cp2 endp steps i rng = ([], rng)"
  by (subst pathLoop.simps) simp

lemma pathLoop_closed:
  "Suc steps - i = n \<Longrightarrow>
   pathLoop start cp1 cp2 endp steps i rng =
     (map (\<lambda>k. jitterPoint (bezierPoint (real k / real steps) start cp1 cp2 endp)
                  (skipDraws (2 * (k - i)) rng)) [i..<Suc steps],
      skipDraws (2 * n) rng)"
proof (induction n arbitrary: i rng)
  case 0
  then have "steps < i" by simp
  then show ?case by (simp add: pathLoop_stop skipDraws_def)
next
  case (Suc n)
  then have le: "i \<le> steps" and n: "Suc steps - Suc i = n" by simp_all
  have up: "[i..<Suc steps] = i # [Suc i..<Suc steps]"
    using le by (simp add: upt_conv_Cons)
  have sk: "skipDraws (2 * (k - Suc i)) (skipDraws 2 rng) = skipDraws (2 * (k - i)) rng"
    if "Suc i \<le> k" for k
  proof -
    have "2 + 2 * (k - Suc i) = 2 * (k - i)" using that by simp
    then show ?thesis by (simp add: skipDraws_skipDraws)
  qed
  have fin: "skipDraws (2 * n) (skipDraws 2 rng) = skipDraws (2 * Suc n) rng"
    by (simp add: skipDraws_skipDraws)
  show ?case
    apply (subst pathLoop_step [OF le])
    apply (simp only: Suc.IH [OF n] up fst_conv snd_conv list.map fin)
    apply (simp add: skipDraws_0)
    apply (auto simp: sk)
    done
qed

lemma controlPoints_rng: "snd (snd (controlPoints start endp rng)) = skipDraws 4 rng"
  by (simp add: controlPoints_def Let_def randomBetween_def skipDraws_def eval_nat_numeral
      split: prod.splits)

lemma generateMousePath_closed:
  "fst (generateMousePath start endp steps rng) =
     map (\<lambda>k. jitterPoint
                 (bezierPoint (real k / real steps) start
                    (fst (controlPoints start endp rng))
                    (fst (snd (controlPoints start endp rng))) endp)
                 (skipDraws (4 + 2 * k) rng)) [0..<Suc steps]"
proof -
  obtain cp1 cp2 rng4 where cp: "controlPoints start endp rng = (cp1, cp2, rng4)"
    by (metis prod_cases3)
  have r: "rng4 = skipDraws 4 rng"
    using controlPoints_rng [of start endp rng] cp by simp
  show ?thesis
    by (simp add: generateMousePath_def cp r pathLoop_closed [OF refl] skipDraws_skipDraws)
qed

lemma generateMousePath_length:
  "length (fst (generateMousePath start endp steps rng)) = steps + 1"
  by (simp add: generateMousePath_closed)

lemma generateMousePath_nth:
  assumes "k \<le> steps"
  shows "fst (generateMousePath start endp steps rng) ! k =
     jitterPoint
       (bezierPoint (real k / real steps) start
          (fst (controlPoints start endp rng))
          (fst (snd (controlPoints start endp rng))) endp)
       (skipDraws (4 + 2 * k) rng)"
proof -
  have "k < length [0..<Suc steps]" using assms by simp
  then show ?thesis
    unfolding generateMousePath_closed
    by (simp only: nth_map) (simp del: upt_Suc)
qed

lemma generateMousePath_first:
  "hd (fst (generateMousePath start endp steps rng)) = jitterPoint start (skipDraws 4 rng)"
proof -
  have "fst (generateMousePath start endp steps rng) \<noteq> []"
    using generateMousePath_length [of start endp steps rng] by auto
  then have "hd (fst (generateMousePath start endp steps rng)) =
      fst (generateMousePath start endp steps rng) ! 0"
    by (rule hd_conv_nth)
  then show ?thesis
    by (simp add: generateMousePath_nth bezierPoint_at_0)
qed

lemma generateMousePath_last:
  assumes "1 \<le> steps"
  shows "last (fst (generateMousePath start endp steps rng)) =
     jitterPoint endp (skipDraws (4 + 2 * steps) rng)"
proof -
  have "fst (generateMousePath start endp steps rng) \<noteq> []"
    using generateMousePath_length [of start endp steps rng] by auto
  then have "last (fst (generateMousePath start endp steps rng)) =
      fst (generateMousePath start endp steps rng)
        ! (length (fst (generateMousePath start endp steps rng)) - 1)"
    by (rule last_conv_nth)
  then show ?thesis
    using assms by (simp add: generateMousePath_length generateMousePath_nth bezierPoint_at_1)
qed

lemma Math_round_jitter_bound:
  assumes "0 \<le> r" "r < 1"
  shows "\<bar>Math_round (v + (r * (1 - (- 1)) + (- 1))) - v\<bar> < 3 / 2"
proof -
  define z where "z = v + (r * (1 - (- 1)) + (- 1)) + 1 / 2"
  define n where "n = real_of_int \<lfloor>z\<rfloor>"
  have "n \<le> z" "z < n + 1"
    unfolding n_def by linarith+
  moreover have "Math_round (v + (r * (1 - (- 1)) + (- 1))) = n"
    by (simp add: Math_round_def n_def z_def)
  moreover have "z = v + 2 * r - 1 / 2"
    by (simp add: z_def)
  ultimately show ?thesis
    using assms by linarith
qed

lemma Math_round_jitter_int:
  assumes "0 \<le> r" "r < 1" "v \<in> \<int>"
  shows "\<bar>Math_round (v + (r * (1 - (- 1)) + (- 1))) - v\<bar> \<le> 1"
proof -
  from assms(3) obtain k :: int where v: "v = of_int k" by (auto elim: Ints_cases)
  define w where "w = r * (1 - (- 1)) + (- 1) + 1 / 2"
  define m where "m = \<lfloor>w\<rfloor>"
  have fl: "\<lfloor>of_int k + w\<rfloor> = k + m"
    unfolding m_def by linarith
  have "- 1 \<le> m"
    unfolding m_def w_def using assms(1,2) by (subst le_floor_iff) simp
  moreover have "m \<le> 1"
    unfolding m_def w_def using assms(1,2) by (subst floor_le_iff) simp
  ultimately have "\<bar>m\<bar> \<le> 1" by linarith
  then have m: "\<bar>real_of_int m\<bar> \<le> 1"
    by (simp flip: of_int_abs)
  have "v + (r * (1 - (- 1)) + (- 1)) + 1 / 2 = of_int k + w"
    unfolding v w_def by (simp only: add.assoc)
  then have "Math_round (v + (r * (1 - (- 1)) + (- 1))) = real_of_int (k + m)"
    unfolding Math_round_def using fl by simp
  then show ?thesis
    using m by (simp add: v)
qed


lemma jitterPoint_near:
  assumes "validDraws rng"
  shows "\<bar>x (jitterPoint p rng) - x p\<bar> < 3 / 2"
    and "\<bar>y (jitterPoint p rng) - y p\<bar> < 3 / 2"
    and "x p \<in> \<int> \<Longrightarrow> \<bar>x (jitterPoint p rng) - x p\<bar> \<le> 1"
    and "y p \<in> \<int> \<Longrightarrow> \<bar>y (jitterPoint p rng) - y p\<bar> \<le> 1"
proof -
  have r0: "0 \<le> rng 0" "rng 0 < 1" and r1: "0 \<le> rng 1" "rng 1 < 1"
    using assms by (simp_all add: validDraws_def)
  show "\<bar>x (jitterPoint p rng) - x p\<bar> < 3 / 2"
    using Math_round_jitter_bound [OF r0] by (simp add: jitterPoint_def)
  show "\<bar>y (jitterPoint p rng) - y p\<bar> < 3 / 2"
    using Math_round_jitter_bound [OF r1] by (simp add: jitterPoint_def)
  show "\<bar>x (jitterPoint p rng) - x p\<bar> \<le> 1" if "x p \<in> \<int>"
    using Math_round_jitter_int [OF r0 that] by (simp add: jitterPoint_def)
  show "\<bar>y (jitterPoint p rng) - y p\<bar> \<le> 1" if "y p \<in> \<int>"
    using Math_round_jitter_int [OF r1 that] by (simp add: jitterPoint_def)
qed

text \<open>
  Claim C1, as amended. For every start point, end point and step count \<open>N \<ge> 1\<close>, and all
  draws in \<open>[0, 1)\<close>, \<open>generateMousePath\<close> returns exactly \<open>N + 1\<close> points. Its first
  point differs from the start, and its last point from the end, by at most \<open>1.5\<close>
  units on each axis, and by at most \<open>1\<close> unit on an axis where the requested coordinate
  is an integer: the jitter is at most \<open>1\<close> and \<open>Math.round\<close> moves the sum by at most
  another half. The bound \<open>1.5\<close> is not strict: the sum of the coordinate and the jitter
  is exact here, but in doubles it can be rounded onto a half, which \<open>Math.round\<close> takes
  upwards (lemma \<open>jitter_reaches_bound_in_doubles\<close> below).
\<close>

theorem generateMousePath_endpoints:
  assumes "1 \<le> steps" and "validDraws rng"
  shows "length (fst (generateMousePath start endp steps rng)) = steps + 1
    \<and> \<bar>x (hd (fst (generateMousePath start endp steps rng))) - x start\<bar> \<le> 3 / 2
    \<and> \<bar>y (hd (fst (generateMousePath start endp steps rng))) - y start\<bar> \<le> 3 / 2
    \<and> \<bar>x (last (fst (generateMousePath start endp steps rng))) - x endp\<bar> \<le> 3 / 2
    \<and> \<bar>y (last (fst (generateMousePath start endp steps rng))) - y endp\<bar> \<le> 3 / 2
    \<and> (x start \<in> \<int> \<longrightarrow>
          \<bar>x (hd (fst (generateMousePath start endp steps rng))) - x start\<bar> \<le> 1)
    \<and> (y start \<in> \<int> \<longrightarrow>
          \<bar>y (hd (fst (generateMousePath start endp steps rng))) - y start\<bar> \<le> 1)
    \<and> (x endp \<in> \<int> \<longrightarrow>
          \<bar>x (last (fst (generateMousePath start endp steps rng))) - x endp\<bar> \<le> 1)
    \<and> (y endp \<in> \<int> \<longrightarrow>
          \<bar>y (last (fst (generateMousePath start endp steps rng))) - y endp\<bar> \<le> 1)"
proof -
  have v1: "validDraws (skipDraws 4 rng)" and v2: "validDraws (skipDraws (4 + 2 * steps) rng)"
    using assms(2) by (rule skipDraws_valid)+
  show ?thesis
    unfolding generateMousePath_first generateMousePath_last [OF assms(1)]
    using jitterPoint_near [OF v1, of start] jitterPoint_near [OF v2, of endp]
    by (simp add: generateMousePath_length less_imp_le)
qed

theorem generateMousePath_endpoints_witness:
  "(1::nat) \<le> 25 \<and> validDraws (constDraws (1 / 2))
   \<and> length (fst (generateMousePath \<lparr>x = 100, y = 100\<rparr> \<lparr>x = 504 / 10, y = 20\<rparr> 25
                (constDraws (1 / 2)))) = 26
   \<and> \<bar>x (last (fst (generateMousePath \<lparr>x = 100, y = 100\<rparr> \<lparr>x = 504 / 10, y = 20\<rparr> 25
                (constDraws (1 / 2))))) - 504 / 10\<bar> \<le> 3 / 2
   \<and> \<bar>x (hd (fst (generateMousePath \<lparr>x = 100, y = 100\<rparr> \<lparr>x = 504 / 10, y = 20\<rparr> 25
                (constDraws (1 / 2))))) - 100\<bar> \<le> 1"
  using generateMousePath_endpoints [of 25 "constDraws (1 / 2)"
      "\<lparr>x = 100, y = 100\<rparr>" "\<lparr>x = 504 / 10, y = 20\<rparr>"]
  by (simp add: validDraws_constDraws)

text \<open>
  Claim C1 as stated fails where a requested coordinate is not an integer. The end point
  \<open>(50.4, 20)\<close> is a target that \<open>getRandomPointInElement\<close> can return; with every draw
  \<open>0\<close> the jitter is \<open>-1\<close>, the last point has \<open>x = Math.round(49.4) = 49\<close>, and
  \<open>49\<close> is \<open>1.4\<close> away from \<open>50.4\<close>.
\<close>

theorem generateMousePath_last_point_counterexample:
  "(1::nat) \<le> 25 \<and> validDraws (constDraws 0)
   \<and> \<not> \<bar>x (last (fst (generateMousePath \<lparr>x = 100, y = 100\<rparr> \<lparr>x = 504 / 10, y = 20\<rparr> 25
                  (constDraws 0)))) - 504 / 10\<bar> \<le> 1"
proof -
  have "x (last (fst (generateMousePath \<lparr>x = 100, y = 100\<rparr> \<lparr>x = 504 / 10, y = 20\<rparr> 25
                  (constDraws 0)))) = 49"
    by (simp add: generateMousePath_last skipDraws_constDraws jitterPoint_def constDraws_apply
        Math_round_def)
  then show ?thesis
    by (simp add: validDraws_constDraws)
qed

text \<open>
  Claim C10. For all four control points, \<open>bezierPoint\<close> at \<open>t = 0\<close> is \<open>p0\<close> and at
  \<open>t = 1\<close> is \<open>p3\<close>. Hence, for a step count of at least \<open>1\<close>, the first point of the path
  is the jitter applied to exactly the start point, and the last point the jitter applied
  to exactly the end point.
\<close>

theorem bezierPoint_endpoint_identities:
  "bezierPoint 0 p0 p1 p2 p3 = p0
   \<and> bezierPoint 1 p0 p1 p2 p3 = p3
   \<and> (1 \<le> steps \<longrightarrow>
        fst (generateMousePath start endp steps rng) ! 0
          = jitterPoint start (skipDraws 4 rng)
        \<and> fst (generateMousePath start endp steps rng) ! steps
          = jitterPoint endp (skipDraws (4 + 2 * steps) rng))"
  by (simp add: bezierPoint_at_0 bezierPoint_at_1 generateMousePath_nth)

theorem bezierPoint_endpoint_identities_witness:
  "(1::nat) \<le> 25
   \<and> fst (generateMousePath \<lparr>x = 100, y = 100\<rparr> \<lparr>x = 50, y = 25\<rparr> 25 (constDraws (1 / 2))) ! 0
       = \<lparr>x = 100, y = 100\<rparr>
   \<and> fst (generateMousePath \<lparr>x = 100, y = 100\<rparr> \<lparr>x = 50, y = 25\<rparr> 25 (constDraws (1 / 2))) ! 25
       = \<lparr>x = 50, y = 25\<rparr>
   \<and> bezierPoint 0 \<lparr>x = 100, y = 100\<rparr> \<lparr>x = 1, y = 2\<rparr> \<lparr>x = 3, y = 4\<rparr> \<lparr>x = 50, y = 25\<rparr>
       = \<lparr>x = 100, y = 100\<rparr>"
  using bezierPoint_endpoint_identities [of "\<lparr>x = 100, y = 100\<rparr>" "\<lparr>x = 1, y = 2\<rparr>"
      "\<lparr>x = 3, y = 4\<rparr>" "\<lparr>x = 50, y = 25\<rparr>" 25 "\<lparr>x = 100, y = 100\<rparr>" "\<lparr>x = 50, y = 25\<rparr>"
      "constDraws (1 / 2)"]
  by (simp add: skipDraws_constDraws jitterPoint_def constDraws_apply Math_round_def)

section \<open>Properties of the target point\<close>

lemma randomPointInBox_within:
  assumes "validDraws rng" "0 \<le> width b" "0 \<le> height b"
  shows "box_x b + 0.1 * width b \<le> x (fst (randomPointInBox b rng))"
    and "x (fst (randomPointInBox b rng)) \<le> box_x b + 0.9 * width b"
    and "box_y b + 0.1 * height b \<le> y (fst (randomPointInBox b rng))"
    and "y (fst (randomPointInBox b rng)) \<le> box_y b + 0.9 * height b"
proof -
  have r0: "0 \<le> rng 0" "rng 0 \<le> 1" and r1: "0 \<le> rng 1" "rng 1 \<le> 1"
    using assms(1) by (simp_all add: validDraws_def less_imp_le)
  have px: "x (fst (randomPointInBox b rng)) = box_x b + 0.1 * width b + rng 0 * (0.8 * width b)"
    by (simp add: randomPointInBox_def Let_def randomBetween_def algebra_simps split: prod.splits)
  have py: "y (fst (randomPointInBox b rng)) = box_y b + 0.1 * height b + rng 1 * (0.8 * height b)"
    by (simp add: randomPointInBox_def Let_def randomBetween_def skipDraws_def algebra_simps
        split: prod.splits)
  have "0 \<le> rng 0 * (0.8 * width b)" "rng 0 * (0.8 * width b) \<le> 1 * (0.8 * width b)"
    using r0 assms(2) by (intro mult_nonneg_nonneg mult_right_mono; simp)+
  then show "box_x b + 0.1 * width b \<le> x (fst (randomPointInBox b rng))"
    and "x (fst (randomPointInBox b rng)) \<le> box_x b + 0.9 * width b"
    unfolding px by simp_all
  have "0 \<le> rng 1 * (0.8 * height b)" "rng 1 * (0.8 * height b) \<le> 1 * (0.8 * height b)"
    using r1 assms(3) by (intro mult_nonneg_nonneg mult_right_mono; simp)+
  then show "box_y b + 0.1 * height b \<le> y (fst (randomPointInBox b rng))"
    and "y (fst (randomPointInBox b rng)) \<le> box_y b + 0.9 * height b"
    unfolding py by simp_all
qed

text \<open>
  Claim C4. For every bounding box \<open>{x, y, width W, height H}\<close> with \<open>W, H \<ge> 0\<close> that the
  element reports and for all draws in \<open>[0, 1)\<close>, \<open>getRandomPointInElement\<close> returns a
  point within \<open>[x + 0.1 W, x + 0.9 W] \<times> [y + 0.1 H, y + 0.9 H]\<close>.
\<close>

theorem getRandomPointInElement_inside_margins:
  assumes "validDraws (random s)"
    and "boundingBox page element (world s) = (Inr (Some b), w1)"
    and "0 \<le> width b" and "0 \<le> height b"
  shows "\<exists>p s1. getRandomPointInElement page element s = (Inr p, s1)
           \<and> box_x b + 0.1 * width b \<le> x p \<and> x p \<le> box_x b + 0.9 * width b
           \<and> box_y b + 0.1 * height b \<le> y p \<and> y p \<le> box_y b + 0.9 * height b"
proof -
  obtain p rng1 where rp: "randomPointInBox b (random s) = (p, rng1)"
    by (cases "randomPointInBox b (random s)")
  have "getRandomPointInElement page element s =
      (Inr p, s\<lparr>trace := trace s @ [BoundingBox element], world := w1, random := rng1\<rparr>)"
    by (simp add: getRandomPointInElement_def then_do_def actorCall_def draw_def assms(2) rp)
  moreover have "p = fst (randomPointInBox b (random s))"
    by (simp add: rp)
  ultimately show ?thesis
    using randomPointInBox_within [OF assms(1,3,4)] by simp
qed

theorem getRandomPointInElement_inside_margins_witness:
  "validDraws (random (initialState (constDraws (1 / 2)) ()))
   \<and> boundingBox (boxPage \<lparr>box_x = 0, box_y = 0, width = 100, height = 50\<rparr>) 0
         (world (initialState (constDraws (1 / 2)) ()))
       = (Inr (Some \<lparr>box_x = 0, box_y = 0, width = 100, height = 50\<rparr>), ())
   \<and> (\<exists>p s1. getRandomPointInElement (boxPage \<lparr>box_x = 0, box_y = 0, width = 100, height = 50\<rparr>)
                0 (initialState (constDraws (1 / 2)) ()) = (Inr p, s1)
        \<and> 10 \<le> x p \<and> x p \<le> 90 \<and> 5 \<le> y p \<and> y p \<le> 45)"
  using getRandomPointInElement_inside_margins
    [of "initialState (constDraws (1 / 2)) ()"
        "boxPage \<lparr>box_x = 0, box_y = 0, width = 100, height = 50\<rparr>" 0
        "\<lparr>box_x = 0, box_y = 0, width = 100, height = 50\<rparr>" "()"]
  by (simp add: initialState_def boxPage_def staticPage_def validDraws_constDraws)

section \<open>Properties of the control points\<close>

text \<open>
  What the code does: each control point is displaced from the quarter (three-quarter)
  position by \<open>offset \<cdot> (cos angle, sin angle)\<close>, with the angle measured from the
  \<open>x\<close> axis of the page and not from the line between the two points.
\<close>

lemma controlPoints_displacement:
  "displacement start endp 0.25 (fst (controlPoints start endp rng)) =
     (let d = sqrt ((x endp - x start) * (x endp - x start) + (y endp - y start) * (y endp - y start));
          offset1 = (rng 0 * (0.4 - 0.2) + 0.2) * d;
          angle1 = rng 2 * (pi / 4 - (- pi / 4)) + (- pi / 4)
      in \<lparr>x = cos angle1 * offset1, y = sin angle1 * offset1\<rparr>)"
  and "displacement start endp 0.75 (fst (snd (controlPoints start endp rng))) =
     (let d = sqrt ((x endp - x start) * (x endp - x start) + (y endp - y start) * (y endp - y start));
          offset2 = (rng 1 * (0.4 - 0.2) + 0.2) * d;
          angle2 = rng 3 * (pi / 4 - (- pi / 4)) + (- pi / 4)
      in \<lparr>x = cos angle2 * offset2, y = sin angle2 * offset2\<rparr>)"
  by (simp_all add: displacement_def controlPoints_def Let_def randomBetween_def skipDraws_def
      numeral_2_eq_2 numeral_3_eq_3 split: prod.splits)

lemma offset_length:
  assumes "0 \<le> r"
  shows "sqrt ((cos a * r) ^ 2 + (sin a * r) ^ 2) = r"
proof -
  have "(cos a * r) ^ 2 + (sin a * r) ^ 2 = r ^ 2 * (cos a) ^ 2 + r ^ 2 * (sin a) ^ 2"
    by (simp add: power_mult_distrib mult.commute)
  also have "\<dots> = r ^ 2 * ((cos a) ^ 2 + (sin a) ^ 2)"
    by (simp only: distrib_left)
  also have "\<dots> = r ^ 2"
    by simp
  finally show ?thesis using assms by simp
qed

lemma cos_ge_abs_sin:
  assumes "- pi / 4 \<le> a" "a \<le> pi / 4"
  shows "\<bar>sin a\<bar> \<le> cos a"
proof -
  have c: "0 \<le> cos a"
    using assms by (intro cos_ge_zero) (use pi_gt_zero in linarith)+
  have "0 \<le> cos (2 * a)"
    using assms by (intro cos_ge_zero) (use pi_gt_zero in linarith)+
  then have "(sin a) ^ 2 \<le> (cos a) ^ 2"
    by (simp add: cos_double)
  then have "\<bar>sin a\<bar> \<le> \<bar>cos a\<bar>"
    by (simp add: abs_le_square_iff)
  then show ?thesis using c by simp
qed

text \<open>
  For draws in \<open>[0, 1)\<close> the offset has a length between \<open>0.2 d\<close> and \<open>0.4 d\<close>, and
  its direction is within 45 degrees of the positive \<open>x\<close> axis, whatever the direction of
  the line.
\<close>

lemma controlPoints_offset_size:
  fixes start endp :: point and rng :: rng
  assumes "validDraws rng"
  defines "d \<equiv> sqrt ((x endp - x start) * (x endp - x start)
                    + (y endp - y start) * (y endp - y start))"
    and "v \<equiv> displacement start endp 0.25 (fst (controlPoints start endp rng))"
  shows "0.2 * d \<le> sqrt ((x v) ^ 2 + (y v) ^ 2)"
    and "sqrt ((x v) ^ 2 + (y v) ^ 2) \<le> 0.4 * d"
    and "\<bar>y v\<bar> \<le> x v"
proof -
  define r where "r = (rng 0 * (0.4 - 0.2) + 0.2) * d"
  define a where "a = rng 2 * (pi / 4 - (- pi / 4)) + (- pi / 4)"
  have v: "v = \<lparr>x = cos a * r, y = sin a * r\<rparr>"
    unfolding v_def r_def a_def d_def by (subst controlPoints_displacement) (simp add: Let_def)
  have d0: "0 \<le> d" unfolding d_def by simp
  have r0: "0 \<le> rng 0" "rng 0 < 1" and r2: "0 \<le> rng 2" "rng 2 < 1"
    using assms(1) by (simp_all add: validDraws_def)
  have f: "0.2 \<le> rng 0 * (0.4 - 0.2) + 0.2" "rng 0 * (0.4 - 0.2) + 0.2 \<le> 0.4"
    using r0 by simp_all
  have rlo: "0.2 * d \<le> r" and rhi: "r \<le> 0.4 * d"
    unfolding r_def using f d0 by (intro mult_right_mono; simp)+
  have rnn: "0 \<le> r" using rlo d0 by simp
  have len: "sqrt ((x v) ^ 2 + (y v) ^ 2) = r"
    unfolding v using offset_length [OF rnn] by simp
  show "0.2 * d \<le> sqrt ((x v) ^ 2 + (y v) ^ 2)" and "sqrt ((x v) ^ 2 + (y v) ^ 2) \<le> 0.4 * d"
    unfolding len using rlo rhi by simp_all
  have "rng 2 * (pi / 2) \<le> 1 * (pi / 2)" "0 \<le> rng 2 * (pi / 2)"
    using r2 pi_gt_zero by (intro mult_right_mono mult_nonneg_nonneg; simp)+
  then have "- pi / 4 \<le> a" "a \<le> pi / 4"
    unfolding a_def by (simp_all add: algebra_simps)
  then have "\<bar>sin a\<bar> \<le> cos a" by (rule cos_ge_abs_sin)
  then have "\<bar>sin a\<bar> * r \<le> cos a * r"
    using rnn by (rule mult_right_mono)
  then show "\<bar>y v\<bar> \<le> x v"
    unfolding v using rnn by (simp add: abs_mult)
qed

text \<open>
  Claim C2 at a horizontal move. From \<open>(100, 100)\<close> to \<open>(102, 100)\<close> with every draw
  \<open>1/2\<close>, the distance is \<open>2\<close>, the offset \<open>0.3 \<cdot> 2 = 0.6\<close> and the angle \<open>0\<close>: the first
  control point is displaced from the quarter position by \<open>(0.6, 0)\<close>, along the line
  itself and so 90 degrees away from its perpendicular, where the comment of the source
  (line 69) and the claim have the offset perpendicular to the line.
\<close>

theorem controlPoints_parallel_offset:
  "validDraws (constDraws (1 / 2))
   \<and> displacement \<lparr>x = 100, y = 100\<rparr> \<lparr>x = 102, y = 100\<rparr> 0.25
        (fst (controlPoints \<lparr>x = 100, y = 100\<rparr> \<lparr>x = 102, y = 100\<rparr> (constDraws (1 / 2))))
       = \<lparr>x = 0.6, y = 0\<rparr>
   \<and> \<not> nearPerpendicular \<lparr>x = 100, y = 100\<rparr> \<lparr>x = 102, y = 100\<rparr>
         (displacement \<lparr>x = 100, y = 100\<rparr> \<lparr>x = 102, y = 100\<rparr> 0.25
            (fst (controlPoints \<lparr>x = 100, y = 100\<rparr> \<lparr>x = 102, y = 100\<rparr> (constDraws (1 / 2)))))"
proof -
  have d: "displacement \<lparr>x = 100, y = 100\<rparr> \<lparr>x = 102, y = 100\<rparr> 0.25
        (fst (controlPoints \<lparr>x = 100, y = 100\<rparr> \<lparr>x = 102, y = 100\<rparr> (constDraws (1 / 2))))
       = \<lparr>x = 0.6, y = 0\<rparr>"
    by (subst controlPoints_displacement) (simp add: constDraws_apply)
  show ?thesis
    unfolding d by (simp add: validDraws_constDraws nearPerpendicular_def)
qed

section \<open>Results of the effects, and the arithmetic of chunks\<close>


lemma actorCall_result:
  "actorCall ev prim s =
     (case fst (prim (world s)) of Inl msg \<Rightarrow> Inl (ActorFailure msg) | Inr v \<Rightarrow> Inr v,
      s\<lparr>trace := trace s @ [ev], world := snd (prim (world s))\<rparr>)"
  by (simp add: actorCall_def Let_def split: prod.splits sum.splits)

lemma randomSleep_result:
  "randomSleep lo hi s =
     (Inr (), s\<lparr>random := skipDraws 1 (random s),
                trace := trace s @ [Sleep (random s 0 * (hi - lo) + lo)]\<rparr>)"
  by (simp add: randomSleep_def then_do_def draw_def sleep_def randomBetween_def)






section \<open>Properties of the motion driver and of the interception layer\<close>

lemma stepDelay_result:
  "stepDelay speed prev point s =
     (Inr (), s\<lparr>random := skipDraws 1 (random s),
                trace := trace s @
                  [Sleep (max 1 (sqrt ((x point - x prev) ^ 2 + (y point - y prev) ^ 2)
                     / (random s 0 * (range_max speed - range_min speed) + range_min speed)
                     * 100))]\<rparr>)"
  by (simp add: stepDelay_def Let_def then_do_def draw_def sleep_def randomBetween_def)

lemma moveLoop_stop:
  "\<not> i < length path \<Longrightarrow> moveLoop page speed path i s = (Inr (), s)"
  by (subst moveLoop.simps) simp

lemma moveLoop_step:
  assumes "i < length path"
  shows "moveLoop page speed path i s =
     (case actorCall (MouseMove (x (path ! i)) (y (path ! i)))
             (mouse_move page (x (path ! i)) (y (path ! i))) (beforeMove speed path i s) of
        (Inl e, s2) \<Rightarrow> (Inl e, s2)
      | (Inr u, s2) \<Rightarrow> moveLoop page speed path (i + 1) s2)"
  using assms
  by (subst moveLoop.simps) (simp add: Let_def beforeMove_def stepDelay_result)

lemma moveLoop_lastMousePosition:
  "length path - i = n \<Longrightarrow>
   lastMousePosition (snd (moveLoop page speed path i s)) = lastMousePosition s"
proof (induction n arbitrary: i s)
  case 0
  then have "\<not> i < length path" by simp
  then show ?case by (simp add: moveLoop_stop)
next
  case (Suc n)
  then have lt: "i < length path" and n: "length path - Suc i = n" by simp_all
  obtain r s2 where a: "actorCall (MouseMove (x (path ! i)) (y (path ! i)))
             (mouse_move page (x (path ! i)) (y (path ! i))) (beforeMove speed path i s) = (r, s2)"
    by (cases "actorCall (MouseMove (x (path ! i)) (y (path ! i)))
             (mouse_move page (x (path ! i)) (y (path ! i))) (beforeMove speed path i s)")
  have "lastMousePosition (beforeMove speed path i s) = lastMousePosition s"
    by (simp add: beforeMove_def stepDelay_result)
  moreover have "s2 = snd (actorCall (MouseMove (x (path ! i)) (y (path ! i)))
             (mouse_move page (x (path ! i)) (y (path ! i))) (beforeMove speed path i s))"
    using a by simp
  ultimately have p: "lastMousePosition s2 = lastMousePosition s"
    by (simp add: actorCall_result)
  show ?case
  proof (cases r)
    case (Inl e)
    then show ?thesis by (simp add: moveLoop_step [OF lt] a p)
  next
    case (Inr u)
    then show ?thesis by (simp add: moveLoop_step [OF lt] a p Suc.IH [OF n])
  qed
qed

text \<open>
  Claim C7. For every path and configuration: after a run of \<open>moveMouseAlongPath\<close>
  that completes, \<open>lastMousePosition\<close> is the last point of the path if the path is not
  empty, and is what it was before if the path is empty. On an empty path the run
  completes and changes nothing at all.
\<close>

theorem moveMouseAlongPath_lastMousePosition:
  "(fst (moveMouseAlongPath page path config s) = Inr () \<longrightarrow>
      lastMousePosition (snd (moveMouseAlongPath page path config s))
        = (if path = [] then lastMousePosition s else last path))
   \<and> (path = [] \<longrightarrow> moveMouseAlongPath page path config s = (Inr (), s))"
proof -
  obtain r s1 where m: "moveLoop page (orDefault (mouseSpeed config) DEFAULTS_mouseSpeed) path 0 s
      = (r, s1)"
    by (cases "moveLoop page (orDefault (mouseSpeed config) DEFAULTS_mouseSpeed) path 0 s")
  have keep: "lastMousePosition s1 = lastMousePosition s"
    using moveLoop_lastMousePosition [OF refl, where path = path and i = 0 and page = page
        and speed = "orDefault (mouseSpeed config) DEFAULTS_mouseSpeed" and s = s] m by simp
  have e: "path = [] \<Longrightarrow> moveMouseAlongPath page path config s = (Inr (), s)"
    by (simp add: moveMouseAlongPath_def moveLoop_stop)
  have "lastMousePosition (snd (moveMouseAlongPath page path config s))
        = (if path = [] then lastMousePosition s else last path)"
    if "fst (moveMouseAlongPath page path config s) = Inr ()"
    using that m keep
    by (cases r) (auto simp: moveMouseAlongPath_def Let_def last_conv_nth)
  with e show ?thesis by blast
qed

theorem moveMouseAlongPath_lastMousePosition_witness:
  "fst (moveMouseAlongPath emptyPage [\<lparr>x = 0, y = 0\<rparr>, \<lparr>x = 3, y = 4\<rparr>] defaultConfig
          (initialState (constDraws (1 / 2)) ())) = Inr ()
   \<and> lastMousePosition (snd (moveMouseAlongPath emptyPage [\<lparr>x = 0, y = 0\<rparr>, \<lparr>x = 3, y = 4\<rparr>]
          defaultConfig (initialState (constDraws (1 / 2)) ()))) = \<lparr>x = 3, y = 4\<rparr>
   \<and> lastMousePosition (snd (moveMouseAlongPath emptyPage [] defaultConfig
          (initialState (constDraws (1 / 2)) ()))) = \<lparr>x = 100, y = 100\<rparr>"
proof -
  have ok: "fst (moveMouseAlongPath emptyPage [\<lparr>x = 0, y = 0\<rparr>, \<lparr>x = 3, y = 4\<rparr>] defaultConfig
          (initialState (constDraws (1 / 2)) ())) = Inr ()"
    by (simp add: moveMouseAlongPath_def moveLoop.simps stepDelay_result actorCall_result
        emptyPage_def staticPage_def initialState_def Let_def)
  show ?thesis
    using moveMouseAlongPath_lastMousePosition [of emptyPage "[\<lparr>x = 0, y = 0\<rparr>, \<lparr>x = 3, y = 4\<rparr>]"
        defaultConfig "initialState (constDraws (1 / 2)) ()"]
      moveMouseAlongPath_lastMousePosition [of emptyPage "[]"
        defaultConfig "initialState (constDraws (1 / 2)) ()"] ok
    by (simp add: initialState_def)
qed

text \<open>With emulation enabled a new object is made: the result is not the page.\<close>

lemma createHumanizedPage_enabled:
  assumes "enabled config" and "page < length store"
  shows "fst (createHumanizedPage page config store) \<noteq> page"
    and "snd (createHumanizedPage page config store) = store @ [ProxyObj page config]"
  using assms by (simp_all add: createHumanizedPage_def)

text \<open>
  Claim C5. For every page and every configuration with \<open>enabled = false\<close>,
  \<open>createHumanizedPage\<close> returns the reference of the page it was given, and the store
  of objects is unchanged: no proxy is made.
\<close>

theorem createHumanizedPage_disabled_identity:
  "\<not> enabled config \<Longrightarrow> createHumanizedPage page config store = (page, store)"
  by (simp add: createHumanizedPage_def)

theorem createHumanizedPage_disabled_identity_witness:
  "\<not> enabled \<lparr>enabled = False, mouseSpeed = None, typingDelay = None, scrollDelay = None\<rparr>
   \<and> createHumanizedPage 0
        \<lparr>enabled = False, mouseSpeed = None, typingDelay = None, scrollDelay = None\<rparr> [PageObj]
       = (0, [PageObj])"
  using createHumanizedPage_disabled_identity
    [of "\<lparr>enabled = False, mouseSpeed = None, typingDelay = None, scrollDelay = None\<rparr>"
        0 "[PageObj]"]
  by simp

text \<open>
  Claim C9. \<open>humanType\<close> does not depend on its \<open>options\<close>: for any two values of
  \<open>options\<close> it is the same action, that is, from every state it makes the same calls
  of the actor, the same draws and the same pauses and ends in the same state with the
  same result. The same holds for the closure that the proxy returns for \<open>type\<close>.
\<close>

theorem humanType_ignores_options:
  "humanType page selector text config options1 = humanType page selector text config options2
   \<and> proxyType page config selector text options1 = proxyType page config selector text options2"
  by (simp add: humanType_def proxyType_def)

theorem humanType_ignores_options_witness:
  "humanType emptyPage ''#q'' ''hi'' defaultConfig (Some \<lparr>delay = Some 500\<rparr>)
     = humanType emptyPage ''#q'' ''hi'' defaultConfig None
   \<and> proxyType emptyPage defaultConfig ''#q'' ''hi'' (Some \<lparr>delay = Some 500\<rparr>)
     = proxyType emptyPage defaultConfig ''#q'' ''hi'' None"
  using humanType_ignores_options [of emptyPage "''#q''" "''hi''" defaultConfig
      "Some \<lparr>delay = Some 500\<rparr>" None]
  by simp

section \<open>Failures of the interaction primitives\<close>

lemma then_do_Inl:
  "fst (m s) = Inl e \<Longrightarrow> then_do m f s = (Inl e, snd (m s))"
  by (cases "m s") (simp add: then_do_def)

lemma then_do_Inr:
  "m s = (Inr v, s1) \<Longrightarrow> then_do m f s = f v s1"
  by (simp add: then_do_def)

lemma then_do_Inl_cases:
  assumes "fst (then_do m f s) = Inl e"
  shows "fst (m s) = Inl e \<or> (\<exists>v s1. m s = (Inr v, s1) \<and> fst (f v s1) = Inl e)"
  using assms by (cases "m s") (auto simp: then_do_def split: sum.splits)

lemma failsOnlyByActor_actorCall: "failsOnlyByActor (actorCall ev prim)"
  by (auto simp: failsOnlyByActor_def actorCall_result split: sum.splits)

lemma failsOnlyByActor_draw: "failsOnlyByActor (draw f)"
  by (simp add: failsOnlyByActor_def draw_def split: prod.splits)

lemma failsOnlyByActor_sleep: "failsOnlyByActor (sleep ms)"
  by (simp add: failsOnlyByActor_def sleep_def)

lemma failsOnlyByActor_done_with: "failsOnlyByActor (done_with v)"
  by (simp add: failsOnlyByActor_def done_with_def)

lemma failsOnlyByActor_randomSleep: "failsOnlyByActor (randomSleep lo hi)"
  by (simp add: failsOnlyByActor_def randomSleep_result)

lemma failsOnlyByActor_then_do:
  assumes "failsOnlyByActor m" and "\<And>v. failsOnlyByActor (f v)"
  shows "failsOnlyByActor (then_do m f)"
  unfolding failsOnlyByActor_def
proof (intro allI impI)
  fix s e
  assume "fst (then_do m f s) = Inl e"
  from then_do_Inl_cases [OF this] show "\<exists>msg. e = ActorFailure msg"
    using assms unfolding failsOnlyByActor_def by metis
qed

lemma failsOnlyByActor_draw_state: "failsOnlyByActor (\<lambda>s. draw (g s) s)"
  by (simp add: failsOnlyByActor_def draw_def split: prod.splits)

lemma failsOnlyByActor_if:
  assumes "failsOnlyByActor m" and "failsOnlyByActor n"
  shows "failsOnlyByActor (if b then m else n)"
  using assms by simp

lemma moveLoop_failure:
  "length path - i = n \<Longrightarrow> fst (moveLoop page speed path i s) = Inl e \<Longrightarrow>
   \<exists>msg. e = ActorFailure msg"
proof (induction n arbitrary: i s)
  case 0
  then have "\<not> i < length path" by simp
  then show ?case using "0.prems"(2) by (simp add: moveLoop_stop)
next
  case (Suc n)
  then have lt: "i < length path" and n: "length path - (i + 1) = n" by simp_all
  obtain r s2 where a: "actorCall (MouseMove (x (path ! i)) (y (path ! i)))
             (mouse_move page (x (path ! i)) (y (path ! i))) (beforeMove speed path i s) = (r, s2)"
    by (cases "actorCall (MouseMove (x (path ! i)) (y (path ! i)))
             (mouse_move page (x (path ! i)) (y (path ! i))) (beforeMove speed path i s)")
  show ?case
  proof (cases r)
    case (Inl e1)
    then have "e = e1" using Suc.prems(2) by (simp add: moveLoop_step [OF lt] a)
    moreover have "\<exists>msg. e1 = ActorFailure msg"
      using failsOnlyByActor_actorCall a Inl unfolding failsOnlyByActor_def by (metis fst_conv)
    ultimately show ?thesis by simp
  next
    case (Inr u)
    then have "fst (moveLoop page speed path (i + 1) s2) = Inl e"
      using Suc.prems(2) by (simp add: moveLoop_step [OF lt] a)
    then show ?thesis by (rule Suc.IH [OF n])
  qed
qed

lemma failsOnlyByActor_moveMouseAlongPath:
  "failsOnlyByActor (moveMouseAlongPath page path config)"
  unfolding failsOnlyByActor_def
proof (intro allI impI)
  fix s e
  assume f: "fst (moveMouseAlongPath page path config s) = Inl e"
  obtain r s1 where m: "moveLoop page (orDefault (mouseSpeed config) DEFAULTS_mouseSpeed) path 0 s
      = (r, s1)"
    by (cases "moveLoop page (orDefault (mouseSpeed config) DEFAULTS_mouseSpeed) path 0 s")
  from f m have "fst (moveLoop page (orDefault (mouseSpeed config) DEFAULTS_mouseSpeed) path 0 s)
      = Inl e"
    by (cases r) (simp_all add: moveMouseAlongPath_def Let_def)
  then show "\<exists>msg. e = ActorFailure msg"
    by (rule moveLoop_failure [OF refl])
qed

lemma failsOnlyByActor_typeChar: "failsOnlyByActor (typeChar page tDelay c)"
  unfolding typeChar_def
  by (intro failsOnlyByActor_then_do failsOnlyByActor_actorCall failsOnlyByActor_draw
      failsOnlyByActor_sleep failsOnlyByActor_done_with failsOnlyByActor_if)

lemma typeLoop_failure:
  "fst (typeLoop page tDelay cs s) = Inl e \<Longrightarrow> \<exists>msg. e = ActorFailure msg"
proof (induction cs arbitrary: s)
  case Nil
  then show ?case by simp
next
  case (Cons c cs)
  obtain r s1 where t: "typeChar page tDelay c s = (r, s1)"
    by (cases "typeChar page tDelay c s")
  show ?case
  proof (cases r)
    case (Inl e1)
    then have "e = e1" using Cons.prems t by simp
    moreover have "\<exists>msg. e1 = ActorFailure msg"
      using failsOnlyByActor_typeChar [of page tDelay c] t Inl
      unfolding failsOnlyByActor_def by (metis fst_conv)
    ultimately show ?thesis by simp
  next
    case (Inr u)
    then have "fst (typeLoop page tDelay cs s1) = Inl e" using Cons.prems t by simp
    then show ?thesis by (rule Cons.IH)
  qed
qed

lemma failsOnlyByActor_typeLoop: "failsOnlyByActor (typeLoop page tDelay cs)"
  unfolding failsOnlyByActor_def using typeLoop_failure by blast

text \<open>The two exceptions of \<open>humanClick\<close>, with the state each leaves behind.\<close>

lemma humanClick_not_found:
  assumes "fst (query page selector (world s)) = Inr None"
  shows "humanClick page selector config options s =
     (Inl (Error (''Element not found: '' @ selector)),
      s\<lparr>trace := trace s @ [Query selector],
        world := snd (query page selector (world s))\<rparr>)"
  using assms
  by (simp add: humanClick_def then_do_def actorCall_result throw_def)

lemma humanClick_no_box:
  assumes "query page selector (world s) = (Inr (Some el), w1)"
    and "fst (boundingBox page el w1) = Inr None"
  shows "humanClick page selector config options s =
     (Inl (Error ''Element has no bounding box''),
      s\<lparr>trace := trace s @ [Query selector, BoundingBox el],
        world := snd (boundingBox page el w1)\<rparr>)"
  using assms
  by (simp add: humanClick_def getRandomPointInElement_def then_do_def actorCall_result throw_def)

lemma getRandomPointInElement_box:
  assumes "boundingBox page el (world s) = (Inr (Some bx), w2)"
  shows "getRandomPointInElement page el s =
     (Inr (fst (randomPointInBox bx (random s))),
      s\<lparr>trace := trace s @ [BoundingBox el], world := w2,
        random := snd (randomPointInBox bx (random s))\<rparr>)"
  using assms
  by (simp add: getRandomPointInElement_def then_do_def actorCall_result draw_def
      split: prod.splits)

lemma humanClick_Error_unresolved:
  assumes "fst (humanClick page selector config options s) = Inl (Error msg)"
  shows "targetUnresolved page selector (world s)"
proof -
  obtain r w1 where q: "query page selector (world s) = (r, w1)"
    by (cases "query page selector (world s)")
  show ?thesis
  proof (cases r)
    case (Inl m)
    then show ?thesis
      using assms q by (simp add: humanClick_def then_do_def actorCall_result)
  next
    case (Inr element)
    show ?thesis
    proof (cases element)
      case None
      then show ?thesis using q Inr by (simp add: targetUnresolved_def)
    next
      case (Some el)
      obtain rb w2 where b: "boundingBox page el w1 = (rb, w2)"
        by (cases "boundingBox page el w1")
      show ?thesis
      proof (cases rb)
        case (Inl m)
        then show ?thesis
          using assms q Inr Some b
          by (simp add: humanClick_def getRandomPointInElement_def then_do_def actorCall_result)
      next
        case inr: (Inr bopt)
        show ?thesis
        proof (cases bopt)
          case None
          then show ?thesis using q Inr Some b inr by (simp add: targetUnresolved_def)
        next
          case some: (Some bx)
          define s1 where "s1 = s\<lparr>trace := trace s @ [Query selector], world := w1\<rparr>"
          have q1: "actorCall (Query selector) (query page selector) s = (Inr (Some el), s1)"
            using q Inr Some by (simp add: actorCall_result s1_def)
          have "boundingBox page el (world s1) = (Inr (Some bx), w2)"
            using b inr some by (simp add: s1_def)
          from getRandomPointInElement_box [OF this]
          obtain p s2 where g: "getRandomPointInElement page el s1 = (Inr p, s2)"
            by blast
          let ?tail =
            "then_do (\<lambda>s. draw (generateMousePath (lastMousePosition s) p DEFAULTS_moveSteps) s)
               (\<lambda>path.
             then_do (moveMouseAlongPath page path config)
               (\<lambda>u.
             then_do (randomSleep 50 150)
               (\<lambda>u.
             then_do (actorCall (MouseClick (x p) (y p) (buttonOf options) (clickCountOf options))
                        (mouse_click page (x p) (y p) (buttonOf options) (clickCountOf options)))
               (\<lambda>u. randomSleep 50 100))))"
          have tail: "failsOnlyByActor ?tail"
            by (intro failsOnlyByActor_then_do failsOnlyByActor_draw_state
                failsOnlyByActor_moveMouseAlongPath failsOnlyByActor_randomSleep
                failsOnlyByActor_actorCall)
          have "humanClick page selector config options s = ?tail s2"
            unfolding humanClick_def
            by (subst then_do_Inr [where m = "actorCall (Query selector) (query page selector)"
                  and s = s, OF q1])
               (simp only: option.case
                  then_do_Inr [where m = "getRandomPointInElement page el" and s = s1, OF g])
          then have "fst (?tail s2) = Inl (Error msg)"
            using assms by simp
          with tail have "\<exists>m. Error msg = ActorFailure m"
            unfolding failsOnlyByActor_def by blast
          then show ?thesis by simp
        qed
      qed
    qed
  qed
qed

lemma humanClick_unresolved_Error:
  assumes "targetUnresolved page selector (world s)"
  shows "(humanClick page selector config options s =
            (Inl (Error (''Element not found: '' @ selector)),
             s\<lparr>trace := trace s @ [Query selector],
               world := snd (query page selector (world s))\<rparr>))
       \<or> (\<exists>el w2. humanClick page selector config options s =
            (Inl (Error ''Element has no bounding box''),
             s\<lparr>trace := trace s @ [Query selector, BoundingBox el], world := w2\<rparr>))"
proof -
  obtain r w1 where q: "query page selector (world s) = (r, w1)"
    by (cases "query page selector (world s)")
  show ?thesis
  proof (cases "r = Inr None")
    case True
    then show ?thesis using humanClick_not_found [of page selector s config options] q by simp
  next
    case False
    then obtain el where r: "r = Inr (Some el)" and b: "fst (boundingBox page el w1) = Inr None"
      using assms q
      by (auto simp: targetUnresolved_def split: sum.splits option.splits prod.splits)
    show ?thesis
      using humanClick_no_box [OF q [unfolded r] b, of config options] by blast
  qed
qed

lemma failsOnlyByActor_absurd:
  "failsOnlyByActor m \<Longrightarrow> fst (m s) \<noteq> Inl (Error msg)"
  unfolding failsOnlyByActor_def by blast

lemma humanClick_Error_iff:
  "(\<exists>msg. fst (humanClick page selector config options s) = Inl (Error msg))
     = targetUnresolved page selector (world s)"
proof
  assume "\<exists>msg. fst (humanClick page selector config options s) = Inl (Error msg)"
  then show "targetUnresolved page selector (world s)"
    using humanClick_Error_unresolved by blast
next
  assume "targetUnresolved page selector (world s)"
  from humanClick_unresolved_Error [OF this, of config options]
  show "\<exists>msg. fst (humanClick page selector config options s) = Inl (Error msg)"
    by auto
qed

lemma after_humanClick_Error_iff:
  assumes "\<And>u. failsOnlyByActor (rest u)"
  shows "(\<exists>msg. fst (then_do (humanClick page selector config None) rest s) = Inl (Error msg))
     = targetUnresolved page selector (world s)"
proof
  assume "\<exists>msg. fst (then_do (humanClick page selector config None) rest s) = Inl (Error msg)"
  then obtain msg where
    "fst (then_do (humanClick page selector config None) rest s) = Inl (Error msg)" by blast
  from then_do_Inl_cases [OF this]
  have "fst (humanClick page selector config None s) = Inl (Error msg)"
    using failsOnlyByActor_absurd [OF assms] by blast
  then show "targetUnresolved page selector (world s)"
    by (rule humanClick_Error_unresolved)
next
  assume "targetUnresolved page selector (world s)"
  then obtain msg where "fst (humanClick page selector config None s) = Inl (Error msg)"
    using humanClick_Error_iff [of page selector config None s] by blast
  then show "\<exists>msg. fst (then_do (humanClick page selector config None) rest s) = Inl (Error msg)"
    by (auto simp: then_do_Inl)
qed

lemma after_humanClick_unresolved:
  assumes "targetUnresolved page selector (world s)"
  shows "then_do (humanClick page selector config None) rest s
           = humanClick page selector config None s"
proof -
  obtain msg where "fst (humanClick page selector config None s) = Inl (Error msg)"
    using assms humanClick_Error_iff [of page selector config None s] by blast
  then show ?thesis
    by (cases "humanClick page selector config None s") (simp add: then_do_def)
qed

text \<open>
  Claim C6. For every selector, \<open>humanClick\<close>, and \<open>humanType\<close> and \<open>humanFill\<close> which
  begin with it, raise an \<open>Error\<close> of this module exactly when the selector resolves to
  no element or the resolved element reports no bounding box. The error is then the one
  of line 161 after a single \<open>page.$\<close>, or the one of line 105 after a single \<open>page.$\<close>
  and a single \<open>boundingBox()\<close>: nothing is tried again. \<open>humanType\<close> and \<open>humanFill\<close>
  end with the very result and state of their click, so the error reaches the caller as
  it was raised.
\<close>

theorem ElementNotFound_iff_target_unresolved:
  "((\<exists>msg. fst (humanClick page selector config options s) = Inl (Error msg))
      = targetUnresolved page selector (world s))
   \<and> ((\<exists>msg. fst (humanType page selector text config topts s) = Inl (Error msg))
      = targetUnresolved page selector (world s))
   \<and> ((\<exists>msg. fst (humanFill page selector text config s) = Inl (Error msg))
      = targetUnresolved page selector (world s))
   \<and> (targetUnresolved page selector (world s) \<longrightarrow>
        (humanClick page selector config options s =
           (Inl (Error (''Element not found: '' @ selector)),
            s\<lparr>trace := trace s @ [Query selector],
              world := snd (query page selector (world s))\<rparr>)
         \<or> (\<exists>el w2. humanClick page selector config options s =
           (Inl (Error ''Element has no bounding box''),
            s\<lparr>trace := trace s @ [Query selector, BoundingBox el], world := w2\<rparr>)))
        \<and> humanType page selector text config topts s = humanClick page selector config None s
        \<and> humanFill page selector text config s = humanClick page selector config None s)"
proof -
  have t: "failsOnlyByActor
      (then_do (randomSleep 100 200)
         (\<lambda>u. typeLoop page (orDefault (typingDelay config) DEFAULTS_typingDelay) text))" for u :: unit
    by (intro failsOnlyByActor_then_do failsOnlyByActor_randomSleep failsOnlyByActor_typeLoop)
  have f: "failsOnlyByActor
      (then_do (actorCall (KeyboardPress ''Control+a'') (keyboard_press page ''Control+a''))
         (\<lambda>u.
       then_do (randomSleep 50 100)
         (\<lambda>u.
       then_do (actorCall (KeyboardPress ''Backspace'') (keyboard_press page ''Backspace''))
         (\<lambda>u.
       then_do (randomSleep 100 200)
         (\<lambda>u. typeLoop page (orDefault (typingDelay config) DEFAULTS_typingDelay) text)))))"
    for u :: unit
    by (intro failsOnlyByActor_then_do failsOnlyByActor_randomSleep failsOnlyByActor_typeLoop
        failsOnlyByActor_actorCall)
  have c1: "(\<exists>msg. fst (humanClick page selector config options s) = Inl (Error msg))
      = targetUnresolved page selector (world s)"
    by (rule humanClick_Error_iff)
  have c2: "(\<exists>msg. fst (humanType page selector text config topts s) = Inl (Error msg))
      = targetUnresolved page selector (world s)"
    unfolding humanType_def Let_def by (rule after_humanClick_Error_iff) (rule t)
  have c3: "(\<exists>msg. fst (humanFill page selector text config s) = Inl (Error msg))
      = targetUnresolved page selector (world s)"
    unfolding humanFill_def by (rule after_humanClick_Error_iff) (rule f)
  have c4: "humanType page selector text config topts s = humanClick page selector config None s"
    and c5: "humanFill page selector text config s = humanClick page selector config None s"
    if "targetUnresolved page selector (world s)"
    unfolding humanType_def humanFill_def Let_def
    by (rule after_humanClick_unresolved [OF that])+
  show ?thesis
    using c1 c2 c3 c4 c5 humanClick_unresolved_Error [of page selector s config options]
    by blast
qed

theorem ElementNotFound_iff_target_unresolved_witness:
  "targetUnresolved emptyPage ''#missing'' (world (initialState (constDraws (1 / 2)) ()))
   \<and> humanClick emptyPage ''#missing'' defaultConfig None (initialState (constDraws (1 / 2)) ())
       = (Inl (Error ''Element not found: #missing''),
          (initialState (constDraws (1 / 2)) ())\<lparr>trace := [Query ''#missing'']\<rparr>)
   \<and> humanType emptyPage ''#missing'' ''hi'' defaultConfig None
         (initialState (constDraws (1 / 2)) ())
       = humanClick emptyPage ''#missing'' defaultConfig None
           (initialState (constDraws (1 / 2)) ())
   \<and> (\<exists>msg. fst (humanFill hiddenPage ''#hidden'' ''hi'' defaultConfig
                    (initialState (constDraws (1 / 2)) ())) = Inl (Error msg))
   \<and> \<not> (\<exists>msg. fst (humanClick (boxPage \<lparr>box_x = 0, box_y = 0, width = 100, height = 50\<rparr>)
                      ''#button'' defaultConfig None (initialState (constDraws (1 / 2)) ()))
                = Inl (Error msg))"
proof -
  have u1: "targetUnresolved emptyPage ''#missing'' (world (initialState (constDraws (1 / 2)) ()))"
    by (simp add: targetUnresolved_def emptyPage_def staticPage_def)
  have u2: "targetUnresolved hiddenPage ''#hidden'' (world (initialState (constDraws (1 / 2)) ()))"
    by (simp add: targetUnresolved_def hiddenPage_def staticPage_def)
  have u3: "\<not> targetUnresolved (boxPage \<lparr>box_x = 0, box_y = 0, width = 100, height = 50\<rparr>)
      ''#button'' (world (initialState (constDraws (1 / 2)) ()))"
    by (simp add: targetUnresolved_def boxPage_def staticPage_def)
  have nb: "\<not> (\<exists>el w2. humanClick emptyPage ''#missing'' defaultConfig None
        (initialState (constDraws (1 / 2)) ())
      = (Inl (Error ''Element has no bounding box''),
         (initialState (constDraws (1 / 2)) ())
           \<lparr>trace := trace (initialState (constDraws (1 / 2)) ())
                @ [Query ''#missing'', BoundingBox el], world := w2\<rparr>))"
    by (simp add: humanClick_not_found emptyPage_def staticPage_def)
  show ?thesis
    using ElementNotFound_iff_target_unresolved [of emptyPage "''#missing''" defaultConfig None
        "initialState (constDraws (1 / 2)) ()" "''hi''" None]
      ElementNotFound_iff_target_unresolved [of hiddenPage "''#hidden''" defaultConfig None
        "initialState (constDraws (1 / 2)) ()" "''hi''" None]
      ElementNotFound_iff_target_unresolved
        [of "boxPage \<lparr>box_x = 0, box_y = 0, width = 100, height = 50\<rparr>" "''#button''"
          defaultConfig None "initialState (constDraws (1 / 2)) ()" "''hi''" None]
      u1 u2 u3 nb
    by (simp add: initialState_def emptyPage_def staticPage_def)
qed

section \<open>Properties of typing\<close>


lemma keepsValidDraws_sleep: "keepsValidDraws (sleep ms)"
  by (simp add: keepsValidDraws_def sleep_def)


lemma keepsValidDraws_done_with: "keepsValidDraws (done_with v)"
  by (simp add: keepsValidDraws_def done_with_def)


lemma keepsValidDraws_randomBetween: "keepsValidDraws (draw (randomBetween lo hi))"
  by (simp add: keepsValidDraws_def draw_def randomBetween_def skipDraws_valid)





lemma keepsValidDraws_if:
  assumes "keepsValidDraws m" and "keepsValidDraws n"
  shows "keepsValidDraws (if b then m else n)"
  using assms by simp






lemma typeChar_result:
  assumes "fst (keyboard_type page c (world s)) = Inr ()"
  shows "typeChar page tDelay c s =
     (Inr (),
      s\<lparr>trace := trace s @
          [KeyboardType c,
           Sleep ((random s 0 * (range_max tDelay - range_min tDelay) + range_min tDelay)
                  * (if c \<in> set pauseChars then random s 1 * (2.5 - 1.5) + 1.5 else 1))],
        world := snd (keyboard_type page c (world s)),
        random := skipDraws (if c \<in> set pauseChars then 2 else 1) (random s)\<rparr>)"
proof -
  define s1 where "s1 = s\<lparr>trace := trace s @ [KeyboardType c],
                          world := snd (keyboard_type page c (world s))\<rparr>"
  have a: "actorCall (KeyboardType c) (keyboard_type page c) s = (Inr (), s1)"
    using assms by (simp add: actorCall_result s1_def)
  show ?thesis
    unfolding typeChar_def
    by (subst then_do_Inr [where m = "actorCall (KeyboardType c) (keyboard_type page c)"
          and s = s, OF a])
       (simp add: then_do_def draw_def sleep_def done_with_def randomBetween_def s1_def
          skipDraws_def numeral_2_eq_2)
qed






lemma alwaysCompletes_draw: "alwaysCompletes (draw f)"
  by (simp add: alwaysCompletes_def draw_def split: prod.splits)













lemma keyboardEvents_Nil: "keyboardEvents [] = []"
  by (simp add: keyboardEvents_def)

lemma keyboardEvents_Cons:
  "keyboardEvents (ev # es) = (if isKeyboard ev then ev # keyboardEvents es else keyboardEvents es)"
  by (simp add: keyboardEvents_def)

lemma keyboardEvents_keystrokes:
  "length ds = length cs \<Longrightarrow> keyboardEvents (keystrokes cs ds) = map KeyboardType cs"
proof (induction cs ds rule: keystrokes.induct)
  case (1 c cs d ds)
  then show ?case by (simp add: keyboardEvents_Cons)
qed (simp_all add: keyboardEvents_Nil)


lemma pressesNoKey_sleep: "pressesNoKey (sleep ms)"
  by (simp add: pressesNoKey_def sleep_def keyboardEvents_Cons keyboardEvents_Nil)













text \<open>With every draw \<open>1/2\<close> and the default range: \<open>100\<close> ms after \<open>a\<close>, \<open>200\<close> ms after the period.\<close>

lemma typeLoop_example:
  "trace (snd (typeLoop emptyPage DEFAULTS_typingDelay ''a.'' (initialState (constDraws (1 / 2)) ())))
     = [KeyboardType CHR ''a'', Sleep 100, KeyboardType CHR ''.'', Sleep 200]"
  by (simp add: typeChar_result emptyPage_def staticPage_def initialState_def
      DEFAULTS_typingDelay_def pauseChars_def constDraws_apply skipDraws_constDraws)


section \<open>Properties of scrolling\<close>


lemma roundDouble_exponent:
  fixes v :: real
  assumes "2 powr real_of_int k \<le> \<bar>v\<bar>" and "\<bar>v\<bar> < 2 powr real_of_int (k + 1)"
  shows "roundDouble v
    = real_of_int (roundEven (v / 2 powr real_of_int (k - 52))) * 2 powr real_of_int (k - 52)"
proof -
  have "0 < 2 powr real_of_int k" by simp
  then have pos: "0 < \<bar>v\<bar>" using assms(1) by linarith
  then have e: "\<lfloor>log 2 \<bar>v\<bar>\<rfloor> = k"
    using floor_log_eq_powr_iff [of "\<bar>v\<bar>" 2 k] assms by simp
  have "v \<noteq> 0" using pos by auto
  then show ?thesis
    by (simp add: roundDouble_def e Let_def)
qed

lemma two_powr_nat: "2 powr real m = (2::real) ^ m"
  by (simp only: powr_realpow zero_less_numeral)

lemma two_powr_neg: "2 powr (- real m) = 1 / (2::real) ^ m"
proof -
  have "2 powr (- real m) = inverse ((2::real) powr real m)" by (rule powr_minus)
  then show ?thesis by (simp only: two_powr_nat divide_inverse mult_1)
qed

lemma roundDouble_binade:
  fixes v :: real and k :: nat
  assumes "2 ^ k \<le> \<bar>v\<bar>" and "\<bar>v\<bar> < 2 ^ (k + 1)" and "k \<le> 52"
  shows "roundDouble v = real_of_int (roundEven (v * 2 ^ (52 - k))) / 2 ^ (52 - k)"
proof -
  have ha: "real_of_int (int k) = real k" by simp
  have hb: "real_of_int (int k + 1) = real (k + 1)" by simp
  have hp: "real_of_int (int k - 52) = - real (52 - k)" using assms(3) by simp
  have a: "2 powr real_of_int (int k) = 2 ^ k"
    unfolding ha by (rule two_powr_nat)
  have b: "2 powr real_of_int (int k + 1) = 2 ^ (k + 1)"
    unfolding hb by (rule two_powr_nat)
  have p: "2 powr real_of_int (int k - 52) = 1 / 2 ^ (52 - k)"
    unfolding hp by (rule two_powr_neg)
  have "roundDouble v = real_of_int (roundEven (v / (1 / 2 ^ (52 - k)))) * (1 / 2 ^ (52 - k))"
    using roundDouble_exponent [of "int k" v] assms(1,2) unfolding a b p .
  then show ?thesis by simp
qed

lemma roundDouble_small:
  fixes v :: real and n :: nat
  assumes "1 / 2 ^ n \<le> \<bar>v\<bar>" and "\<bar>v\<bar> < 2 / 2 ^ n"
  shows "roundDouble v = real_of_int (roundEven (v * 2 ^ (52 + n))) / 2 ^ (52 + n)"
proof -
  have ha: "real_of_int (- int n) = - real n" by simp
  have hb: "real_of_int (- int n + 1) = - real n + 1" by simp
  have hp: "real_of_int (- int n - 52) = - real (52 + n)" by simp
  have a: "2 powr real_of_int (- int n) = 1 / 2 ^ n"
    unfolding ha by (rule two_powr_neg)
  have "2 powr (- real n + 1) = 2 powr (- real n) * 2 powr 1" by (rule powr_add)
  then have b: "2 powr real_of_int (- int n + 1) = 2 / 2 ^ n"
    unfolding hb two_powr_neg by simp
  have p: "2 powr real_of_int (- int n - 52) = 1 / 2 ^ (52 + n)"
    unfolding hp by (rule two_powr_neg)
  have "roundDouble v = real_of_int (roundEven (v / (1 / 2 ^ (52 + n)))) * (1 / 2 ^ (52 + n))"
    using roundDouble_exponent [of "- int n" v] assms unfolding a b p .
  then show ?thesis by simp
qed























section \<open>The jitter in doubles\<close>

text \<open>
  In \<open>pathLoop\<close> the sum of a coordinate and its jitter is exact. For a rounding of that
  sum which is monotone and leaves \<open>p - 1\<close> and \<open>p + 1\<close> as they are, the rounded point is
  still within \<open>1.5\<close> of \<open>p\<close>.
\<close>

lemma rounded_jitter_bound:
  fixes p j :: real
  assumes mono: "\<And>a b. a \<le> b \<Longrightarrow> fl a \<le> fl b"
    and "fl (p - 1) = p - 1" and "fl (p + 1) = p + 1"
    and "- 1 \<le> j" and "j < 1"
  shows "\<bar>Math_round (fl (p + j)) - p\<bar> \<le> 3 / 2"
proof -
  have "fl (p - 1) \<le> fl (p + j)" "fl (p + j) \<le> fl (p + 1)"
    using assms(4,5) by (intro mono; simp)+
  then have lo: "p - 1 \<le> fl (p + j)" and hi: "fl (p + j) \<le> p + 1"
    using assms(2,3) by simp_all
  define z where "z = fl (p + j) + 1 / 2"
  define n where "n = real_of_int \<lfloor>z\<rfloor>"
  have "n \<le> z" "z < n + 1"
    unfolding n_def by linarith+
  moreover have "Math_round (fl (p + j)) = n"
    by (simp add: Math_round_def n_def z_def)
  ultimately show ?thesis
    using lo hi unfolding z_def by linarith
qed

text \<open>
  The bound is reached in doubles: with the end coordinate \<open>50.5\<close> and the largest
  jitter of a double, \<open>1 - 2^-52\<close>, the sum is rounded to \<open>51.5\<close> and \<open>Math.round\<close> gives
  \<open>52\<close>, which is \<open>1.5\<close> away from \<open>50.5\<close>.
\<close>

lemma jitter_reaches_bound_in_doubles:
  "roundDouble (505 / 10 + (1 - 1 / 2 ^ 52)) = 515 / 10"
  "Math_round (roundDouble (505 / 10 + (1 - 1 / 2 ^ 52))) = 52"
  by (simp_all add: roundDouble_binade [of 5] roundEven_def Math_round_def)

end
